theory Spec2Isabelle
  imports Complex_Main "HOL-Library.Word"
begin

section \<open>The users resource of \<^verbatim>\<open>src/storage/user.go\<close>\<close>

text \<open>
  The file declares a controller with three gin handlers, \<^verbatim>\<open>GetUsers\<close>, \<^verbatim>\<open>CreateUser\<close> and
  \<^verbatim>\<open>UpdateUser\<close>, each of which makes one call to a MongoDB collection and writes one JSON
  response. The handlers are embedded as functions from the request context and the
  collection to the response and the collection afterwards. What a handler cannot decide
  by itself (whether a store call fails, which identifier the driver generates, how the
  body decodes) is an explicit argument, so that every theorem holds for each of its values.
\<close>

subsection \<open>Values, documents, the collection\<close>

text \<open>\<^verbatim>\<open>primitive.ObjectID\<close> is \<^verbatim>\<open>[12]byte\<close>.\<close>

type_synonym ObjectID = "8 word list"

text \<open>
  The values of a document (\<^verbatim>\<open>bson.M\<close>) and of a JSON response. A JSON number decodes to a
  \<^verbatim>\<open>float64\<close>; no handler computes with it, so a rational carries it.
\<close>

datatype bson =
    Null
  | Boolean bool
  | Number rat
  | String string
  | ObjectId ObjectID
  | Array "bson list"
  | Document "(string \<times> bson) list"

type_synonym doc = "(string \<times> bson) list"

text \<open>The store calls a handler makes, in the order it makes them.\<close>

datatype store_call =
    Call_Find
  | Call_InsertOne doc
  | Call_UpdateOne ObjectID doc

text \<open>
  The collection \<^verbatim>\<open>Go_With.users\<close>: its documents in the store's order, and the calls
  received so far (a call is recorded whether it succeeds or fails).
\<close>

record Collection =
  documents :: "doc list"
  calls :: "store_call list"

text \<open>
  Modelled from the spec: the struct \<^verbatim>\<open>models.User\<close> (package \<^verbatim>\<open>GinFrameWork/Models\<close>) is not
  in the source. The spec gives it the identifier, stored as the store's native
  identifier field \<^verbatim>\<open>_id\<close>, and leaves the remaining fields to an application-level
  schema: here the values of those fields, in the order of the schema.
\<close>

record User =
  User_Id :: ObjectID
  User_Fields :: "bson list"

text \<open>
  What the program takes from its libraries and from the missing model package:
  gin's \<^verbatim>\<open>BindJSON\<close> at the two types it is used at (the decoding error's message, or the
  decoded value) and the BSON names of the fields of \<^verbatim>\<open>models.User\<close> other than \<^verbatim>\<open>_id\<close>.
\<close>

record Deps =
  BindJSON_User :: "string \<Rightarrow> string + User"
  BindJSON_map :: "string \<Rightarrow> string + doc"
  User_schema :: "string list"

text \<open>
  What the environment decides during one request: the error, if any, that each store
  call returns (lost connection, duplicate key, a rejected update document, ...), and
  the result of \<^verbatim>\<open>primitive.NewObjectID()\<close>.
\<close>

record Env =
  Find_err :: "string option"
  All_err :: "string option"
  InsertOne_err :: "string option"
  UpdateOne_err :: "string option"
  NewObjectID :: ObjectID

text \<open>The request: \<^verbatim>\<open>c.Param("id")\<close> and the raw body.\<close>

record Context =
  Param_id :: string
  Body :: string

text \<open>The response written by \<^verbatim>\<open>c.JSON(code, obj)\<close>.\<close>

record Response =
  status :: nat
  json :: bson

definition StatusOK :: nat where "StatusOK = 200"
definition StatusBadRequest :: nat where "StatusBadRequest = 400"
definition StatusNotFound :: nat where "StatusNotFound = 404"
definition StatusInternalServerError :: nat where "StatusInternalServerError = 500"

definition JSON :: "nat \<Rightarrow> bson \<Rightarrow> Response" where
  "JSON code obj = \<lparr>status = code, json = obj\<rparr>"

text \<open>\<^verbatim>\<open>gin.H{...}\<close>, a JSON object.\<close>

definition H :: "(string \<times> bson) list \<Rightarrow> bson" where
  "H kvs = Document kvs"

subsection \<open>Identifiers\<close>

text \<open>
  Modelled from the spec: the driver's \<^verbatim>\<open>primitive.ObjectIDFromHex\<close> is not in the source.
  The spec has the identifier as 12 bytes written as a hex string, so the string must be
  24 hexadecimal digits (either case); anything else is the error.
\<close>

definition fromHexChar :: "char \<Rightarrow> 8 word option" where
  "fromHexChar c =
     (let n = (of_char c :: nat) in
      if 48 \<le> n \<and> n \<le> 57 then Some (of_nat (n - 48))
      else if 97 \<le> n \<and> n \<le> 102 then Some (of_nat (n - 87))
      else if 65 \<le> n \<and> n \<le> 70 then Some (of_nat (n - 55))
      else None)"

fun hex_Decode :: "string \<Rightarrow> 8 word list option" where
  "hex_Decode [] = Some []"
| "hex_Decode [a] = None"
| "hex_Decode (a # b # cs) =
     (case fromHexChar a of
        None \<Rightarrow> None
      | Some x \<Rightarrow>
          (case fromHexChar b of
             None \<Rightarrow> None
           | Some y \<Rightarrow>
               (case hex_Decode cs of
                  None \<Rightarrow> None
                | Some bs \<Rightarrow> Some ((x * 16 + y) # bs))))"

definition ObjectIDFromHex :: "string \<Rightarrow> ObjectID option" where
  "ObjectIDFromHex s = (if length s \<noteq> 24 then None else hex_Decode s)"

subsection \<open>The store\<close>

text \<open>The identifier of a document is its field \<^verbatim>\<open>_id\<close>.\<close>

definition doc_id :: "doc \<Rightarrow> bson option" where
  "doc_id d = map_of d ''_id''"

text \<open>
  Modelled from the spec: how the driver writes a \<^verbatim>\<open>models.User\<close> as a document is not in the
  source. The identifier is the field \<^verbatim>\<open>_id\<close>, the other fields carry the names of the
  schema.
\<close>

definition marshal_User :: "string list \<Rightarrow> User \<Rightarrow> doc" where
  "marshal_User schema u = (''_id'', ObjectId (User_Id u)) # zip schema (User_Fields u)"

text \<open>
  Modelled from the spec: the driver's \<^verbatim>\<open>Collection.Find\<close> with the empty filter is not in
  the source. It fails with a store-level error or gives a cursor over every document of
  the collection, in the store's order.
\<close>

definition Find :: "Env \<Rightarrow> Collection \<Rightarrow> (string + doc list) \<times> Collection" where
  "Find env s =
     ((case Find_err env of Some e \<Rightarrow> Inl e | None \<Rightarrow> Inr (documents s)),
      s\<lparr>calls := calls s @ [Call_Find]\<rparr>)"

text \<open>
  The driver's \<^verbatim>\<open>Cursor.All(ctx, &results)\<close>, which is not in the source either. A Go slice
  is \<^verbatim>\<open>nil\<close> (here \<open>None\<close>) or holds elements (\<open>Some\<close>). \<^verbatim>\<open>All\<close> decodes each document of the
  cursor into the slice and stores the slice cut to the number of documents decoded;
  with no document the slice it was given is stored back with length 0, and a \<^verbatim>\<open>nil\<close>
  slice cut to length 0 is \<^verbatim>\<open>nil\<close>.
\<close>

definition Cursor_All :: "Env \<Rightarrow> doc list \<Rightarrow> doc list option \<Rightarrow> string + doc list option" where
  "Cursor_All env cursor results =
     (case All_err env of
        Some e \<Rightarrow> Inl e
      | None \<Rightarrow>
          Inr (if cursor = [] then (case results of None \<Rightarrow> None | Some _ \<Rightarrow> Some [])
               else Some cursor))"

text \<open>
  \<^verbatim>\<open>encoding/json\<close> on a slice of documents, as \<^verbatim>\<open>c.JSON\<close> applies it: the \<^verbatim>\<open>nil\<close> slice is
  \<^verbatim>\<open>null\<close>, any other slice is an array.
\<close>

definition json_of_slice :: "doc list option \<Rightarrow> bson" where
  "json_of_slice users = (case users of None \<Rightarrow> Null | Some ds \<Rightarrow> Array (map Document ds))"

text \<open>
  Modelled from the spec: the driver's \<^verbatim>\<open>Collection.InsertOne\<close> is not in the source. It
  fails with the store's error, leaving the collection as it is, or adds the document and
  returns its identifier as \<^verbatim>\<open>InsertedID\<close>.
\<close>

definition InsertOne :: "Deps \<Rightarrow> Env \<Rightarrow> User \<Rightarrow> Collection \<Rightarrow> (string + bson) \<times> Collection" where
  "InsertOne deps env user s =
     (let d = marshal_User (User_schema deps) user;
          s1 = s\<lparr>calls := calls s @ [Call_InsertOne d]\<rparr>
      in case InsertOne_err env of
           Some e \<Rightarrow> (Inl e, s1)
         | None \<Rightarrow> (Inr (ObjectId (User_Id user)), s1\<lparr>documents := documents s1 @ [d]\<rparr>))"

text \<open>
  Modelled from the spec: the driver's \<^verbatim>\<open>Collection.UpdateOne\<close> with the update
  \<^verbatim>\<open>{"$set": fields}\<close> and the filter \<^verbatim>\<open>{"_id": objId}\<close> is not in the source. The spec has it
  as a partial merge into the matching document (the fields given are set, the others
  are left as they are), without upsert, and has the identifier immutable after
  creation: an update that would give \<^verbatim>\<open>_id\<close> another value is a store error.
\<close>

fun set_field :: "string \<Rightarrow> bson \<Rightarrow> doc \<Rightarrow> doc" where
  "set_field k v [] = [(k, v)]"
| "set_field k v ((k', v') # d) = (if k' = k then (k, v) # d else (k', v') # set_field k v d)"

fun set_fields :: "doc \<Rightarrow> doc \<Rightarrow> doc" where
  "set_fields [] d = d"
| "set_fields ((k, v) # updatedData) d = set_field k v (set_fields updatedData d)"

definition matches :: "ObjectID \<Rightarrow> doc \<Rightarrow> bool" where
  "matches objId d = (doc_id d = Some (ObjectId objId))"

definition modifies_id :: "doc \<Rightarrow> ObjectID \<Rightarrow> bool" where
  "modifies_id updatedData objId =
     (case map_of updatedData ''_id'' of None \<Rightarrow> False | Some v \<Rightarrow> v \<noteq> ObjectId objId)"

fun update_first :: "ObjectID \<Rightarrow> doc \<Rightarrow> doc list \<Rightarrow> doc list" where
  "update_first objId updatedData [] = []"
| "update_first objId updatedData (d # ds) =
     (if matches objId d then set_fields updatedData d # ds
      else d # update_first objId updatedData ds)"

definition MatchedCount :: "ObjectID \<Rightarrow> doc list \<Rightarrow> nat" where
  "MatchedCount objId ds = (if \<exists>d \<in> set ds. matches objId d then 1 else 0)"

definition UpdateOne ::
  "Env \<Rightarrow> ObjectID \<Rightarrow> doc \<Rightarrow> Collection \<Rightarrow> (string + nat) \<times> Collection" where
  "UpdateOne env objId updatedData s =
     (let s1 = s\<lparr>calls := calls s @ [Call_UpdateOne objId updatedData]\<rparr>
      in case UpdateOne_err env of
           Some e \<Rightarrow> (Inl e, s1)
         | None \<Rightarrow>
             if MatchedCount objId (documents s1) = 0 then (Inr 0, s1)
             else if modifies_id updatedData objId then (Inl ''immutable field _id'', s1)
             else (Inr 1, s1\<lparr>documents := update_first objId updatedData (documents s1)\<rparr>))"

subsection \<open>The handlers\<close>

text \<open>\<^verbatim>\<open>GetUsers\<close>: \<^verbatim>\<open>var users []bson.M\<close> declares the \<^verbatim>\<open>nil\<close> slice that \<^verbatim>\<open>cursor.All\<close> fills.\<close>

definition GetUsers :: "Env \<Rightarrow> Context \<Rightarrow> Collection \<Rightarrow> Response \<times> Collection" where
  "GetUsers env c s =
     (case Find env s of
        (Inl err, s') \<Rightarrow> (JSON StatusInternalServerError (H [(''error'', String err)]), s')
      | (Inr cursor, s') \<Rightarrow>
          (case Cursor_All env cursor None of
             Inl err \<Rightarrow> (JSON StatusInternalServerError (H [(''error'', String err)]), s')
           | Inr users \<Rightarrow> (JSON StatusOK (json_of_slice users), s')))"

definition CreateUser :: "Deps \<Rightarrow> Env \<Rightarrow> Context \<Rightarrow> Collection \<Rightarrow> Response \<times> Collection" where
  "CreateUser deps env c s =
     (case BindJSON_User deps (Body c) of
        Inl err \<Rightarrow> (JSON StatusBadRequest (H [(''error'', String err)]), s)
      | Inr user0 \<Rightarrow>
          (let user = user0\<lparr>User_Id := NewObjectID env\<rparr>
           in case InsertOne deps env user s of
                (Inl err, s') \<Rightarrow>
                  (JSON StatusInternalServerError (H [(''error'', String err)]), s')
              | (Inr InsertedID, s') \<Rightarrow>
                  (JSON StatusOK
                     (H [(''insertedID'', InsertedID),
                         (''message'', String ''User created successfully'')]), s')))"

definition UpdateUser :: "Deps \<Rightarrow> Env \<Rightarrow> Context \<Rightarrow> Collection \<Rightarrow> Response \<times> Collection" where
  "UpdateUser deps env c s =
     (case ObjectIDFromHex (Param_id c) of
        None \<Rightarrow> (JSON StatusBadRequest (H [(''error'', String ''Invalid user ID'')]), s)
      | Some objId \<Rightarrow>
          (case BindJSON_map deps (Body c) of
             Inl err \<Rightarrow> (JSON StatusBadRequest (H [(''error'', String err)]), s)
           | Inr updatedData \<Rightarrow>
               (case UpdateOne env objId updatedData s of
                  (Inl err, s') \<Rightarrow>
                    (JSON StatusInternalServerError (H [(''error'', String err)]), s')
                | (Inr matched, s') \<Rightarrow>
                    if matched = 0
                    then (JSON StatusNotFound (H [(''message'', String ''User not found'')]), s')
                    else (JSON StatusOK
                            (H [(''message'', String ''User updated successfully'')]), s'))))"

text \<open>\<^verbatim>\<open>BasicRoute\<close>: the three routes of the group \<^verbatim>\<open>/users\<close>.\<close>

datatype Route = GET_users | POST_users | PATCH_users_id

definition BasicRoute ::
  "Deps \<Rightarrow> Route \<Rightarrow> Env \<Rightarrow> Context \<Rightarrow> Collection \<Rightarrow> Response \<times> Collection" where
  "BasicRoute deps r =
     (case r of
        GET_users \<Rightarrow> GetUsers
      | POST_users \<Rightarrow> CreateUser deps
      | PATCH_users_id \<Rightarrow> UpdateUser deps)"

text \<open>A sequence of requests, each served on the collection the one before left.\<close>

fun serve :: "Deps \<Rightarrow> (Route \<times> Env \<times> Context) list \<Rightarrow> Collection \<Rightarrow> Collection" where
  "serve deps [] s = s"
| "serve deps ((r, env, c) # reqs) s = serve deps reqs (snd (BasicRoute deps r env c s))"

subsection \<open>Reading a response, and a small instance\<close>

text \<open>The value of a key of a JSON object response.\<close>

definition response_field :: "Response \<Rightarrow> string \<Rightarrow> bson option" where
  "response_field r k = (case json r of Document kvs \<Rightarrow> map_of kvs k | _ \<Rightarrow> None)"

text \<open>
  An instance for evaluating the handlers: a decoder that knows a few bodies, a schema with
  the one field \<^verbatim>\<open>name\<close>, an environment without failures, a collection of one user and
  the empty collection.
\<close>

definition demo_id :: ObjectID where
  "demo_id = [0x65, 0x4f, 0x1a, 0x2b, 0x3c, 0x4d, 0x5e, 0x6f, 0x70, 0x81, 0x92, 0xa3]"

definition demo_deps :: Deps where
  \<open>demo_deps =
     \<lparr>BindJSON_User = (\<lambda>body.
          if body = ''{"name":"Ann"}'' \<or> body = ''{"name":"Ann","role":"admin"}''
          then Inr \<lparr>User_Id = replicate 12 0, User_Fields = [String ''Ann'']\<rparr>
          else if body = ''{"_id":"654f1a2b3c4d5e6f708192a3","name":"Ann"}''
          then Inr \<lparr>User_Id = demo_id, User_Fields = [String ''Ann'']\<rparr>
          else Inl ''unexpected EOF''),
      BindJSON_map = (\<lambda>body.
          if body = ''{"name":"X"}'' then Inr [(''name'', String ''X'')]
          else if body = ''{"role":"admin"}'' then Inr [(''role'', String ''admin'')]
          else if body = ''{"_id":"x","name":"X"}''
          then Inr [(''_id'', String ''x''), (''name'', String ''X'')]
          else Inl ''unexpected EOF''),
      User_schema = [''name'']\<rparr>\<close>

definition demo_env :: Env where
  "demo_env =
     \<lparr>Find_err = None, All_err = None, InsertOne_err = None, UpdateOne_err = None,
      NewObjectID = demo_id\<rparr>"

definition demo_users :: Collection where
  "demo_users =
     \<lparr>documents =
        [[(''_id'', ObjectId demo_id), (''name'', String ''Ann''),
          (''email'', String ''ann@example.org'')]],
      calls = []\<rparr>"

definition no_users :: Collection where
  "no_users = \<lparr>documents = [], calls = []\<rparr>"

section \<open>Properties\<close>

subsection \<open>The store\<close>

lemma map_of_set_field: "map_of (set_field k v d) = (map_of d)(k \<mapsto> v)"
  by (induction d) (auto simp: fun_eq_iff)

lemma map_of_set_fields: "map_of (set_fields updatedData d) = map_of d ++ map_of updatedData"
proof (induction updatedData)
  case Nil
  show ?case by simp
next
  case (Cons kv updatedData)
  obtain k v where kv: "kv = (k, v)" by (cases kv)
  show ?case
    unfolding kv by (simp add: map_of_set_field Cons.IH fun_eq_iff map_add_def)
qed

lemma keys_set_fields: "fst ` set (set_fields updatedData d) = fst ` set d \<union> fst ` set updatedData"
proof -
  have "dom (map_of (set_fields updatedData d)) = dom (map_of d) \<union> dom (map_of updatedData)"
    by (simp add: map_of_set_fields Un_commute)
  then show ?thesis by (simp add: dom_map_of_conv_image_fst)
qed

lemma doc_id_set_fields:
  assumes "matches objId d" and "\<not> modifies_id updatedData objId"
  shows "doc_id (set_fields updatedData d) = doc_id d"
  using assms
  by (auto simp: doc_id_def matches_def modifies_id_def map_of_set_fields map_add_def
           split: option.splits)


lemma update_first_ids:
  "\<not> modifies_id updatedData objId \<Longrightarrow>
   map doc_id (update_first objId updatedData ds) = map doc_id ds"
  by (induction ds) (auto simp: doc_id_set_fields)

lemma update_first_no_match:
  "\<not> (\<exists>d \<in> set ds. matches objId d) \<Longrightarrow> update_first objId updatedData ds = ds"
  by (induction ds) auto

lemma update_first_nth:
  "\<exists>d \<in> set ds. matches objId d \<Longrightarrow>
   \<exists>i < length ds. matches objId (ds ! i) \<and> (\<forall>j < i. \<not> matches objId (ds ! j)) \<and>
      update_first objId updatedData ds = ds[i := set_fields updatedData (ds ! i)]"
proof (induction ds)
  case Nil
  then show ?case by simp
next
  case (Cons d ds)
  show ?case
  proof (cases "matches objId d")
    case True
    then have "matches objId ((d # ds) ! 0) \<and> (\<forall>j < 0. \<not> matches objId ((d # ds) ! j)) \<and>
      update_first objId updatedData (d # ds) = (d # ds)[0 := set_fields updatedData ((d # ds) ! 0)]"
      by simp
    then show ?thesis by blast
  next
    case False
    with Cons.prems have "\<exists>d \<in> set ds. matches objId d" by auto
    from Cons.IH [OF this] obtain i where i: "i < length ds" "matches objId (ds ! i)"
      "\<forall>j < i. \<not> matches objId (ds ! j)"
      "update_first objId updatedData ds = ds[i := set_fields updatedData (ds ! i)]"
      by blast
    have "\<forall>j < Suc i. \<not> matches objId ((d # ds) ! j)"
      using False i(3) by (auto simp: nth_Cons split: nat.splits)
    with i False have "Suc i < length (d # ds) \<and> matches objId ((d # ds) ! Suc i) \<and>
      (\<forall>j < Suc i. \<not> matches objId ((d # ds) ! j)) \<and>
      update_first objId updatedData (d # ds) = (d # ds)[Suc i := set_fields updatedData ((d # ds) ! Suc i)]"
      by simp
    then show ?thesis by blast
  qed
qed

lemma demo_hex: "ObjectIDFromHex ''654f1a2b3c4d5e6f708192a3'' = Some demo_id"
  by (simp add: ObjectIDFromHex_def fromHexChar_def demo_id_def)

lemma CreateUser_ok:
  assumes "BindJSON_User deps (Body c) = Inr user" and "InsertOne_err env = None"
  shows "CreateUser deps env c s =
    (JSON StatusOK (H [(''insertedID'', ObjectId (NewObjectID env)),
                       (''message'', String ''User created successfully'')]),
     s\<lparr>calls := calls s @
          [Call_InsertOne (marshal_User (User_schema deps) (user\<lparr>User_Id := NewObjectID env\<rparr>))],
       documents := documents s @
          [marshal_User (User_schema deps) (user\<lparr>User_Id := NewObjectID env\<rparr>)]\<rparr>)"
  using assms by (simp add: CreateUser_def InsertOne_def Let_def)

lemma CreateUser_status_ok:
  assumes "status (fst (CreateUser deps env c s)) = StatusOK"
  shows "\<exists>user. BindJSON_User deps (Body c) = Inr user \<and> InsertOne_err env = None"
  using assms
  by (auto simp: CreateUser_def InsertOne_def Let_def JSON_def StatusOK_def
        StatusBadRequest_def StatusInternalServerError_def split: sum.splits option.splits)

lemma GetUsers_status_ok:
  assumes "status (fst (GetUsers env c s)) = StatusOK"
  shows "json (fst (GetUsers env c s)) =
           json_of_slice (if documents s = [] then None else Some (documents s))"
  using assms
  by (auto simp: GetUsers_def Find_def Cursor_All_def JSON_def StatusOK_def
        StatusInternalServerError_def split: option.splits)

lemma doc_id_marshal_User: "doc_id (marshal_User schema u) = Some (ObjectId (User_Id u))"
  by (simp add: doc_id_def marshal_User_def)

subsection \<open>Update with an identifier that does not parse\<close>

text \<open>
  Claim C3. When the path identifier of an update request does not parse as an
  identifier, the handler answers 400 with the fixed message \<^verbatim>\<open>Invalid user ID\<close> and
  returns the collection as it received it, with no store call recorded. The decoder of
  the body is arbitrary here: the answer is the same whether the body is well formed or
  not, since the identifier is checked first.
\<close>

theorem UpdateUser_invalid_id:
  assumes "ObjectIDFromHex (Param_id c) = None"
  shows "UpdateUser deps env c s =
           (JSON StatusBadRequest (H [(''error'', String ''Invalid user ID'')]), s) \<and>
         status (fst (UpdateUser deps env c s)) = 400 \<and>
         calls (snd (UpdateUser deps env c s)) = calls s"
  using assms by (simp add: UpdateUser_def JSON_def StatusBadRequest_def)

theorem UpdateUser_invalid_id_witness:
  "ObjectIDFromHex (Param_id \<lparr>Param_id = ''not-an-id'', Body = ''{''\<rparr>) = None \<and>
   BindJSON_map demo_deps (Body \<lparr>Param_id = ''not-an-id'', Body = ''{''\<rparr>) = Inl ''unexpected EOF'' \<and>
   UpdateUser demo_deps demo_env \<lparr>Param_id = ''not-an-id'', Body = ''{''\<rparr> demo_users =
     (\<lparr>status = 400, json = Document [(''error'', String ''Invalid user ID'')]\<rparr>, demo_users)"
proof -
  have h: "ObjectIDFromHex (Param_id \<lparr>Param_id = ''not-an-id'', Body = ''{''\<rparr>) = None"
    by (simp add: ObjectIDFromHex_def)
  show ?thesis
    using h UpdateUser_invalid_id [OF h, of demo_deps demo_env demo_users]
    by (simp add: JSON_def H_def StatusBadRequest_def demo_deps_def)
qed

subsection \<open>The responses of create\<close>

text \<open>
  Claim C6. Create has two failure responses, in this order. A body that does not decode
  gives 400 with the decoder's message, and the collection is returned as received, no
  store call recorded. A body that decodes followed by an insert that fails gives 500
  with the store's message. Every response of create other than 200 is one of these two.
\<close>

theorem CreateUser_error_taxonomy:
  "(\<forall>err. BindJSON_User deps (Body c) = Inl err \<longrightarrow>
      CreateUser deps env c s = (JSON StatusBadRequest (H [(''error'', String err)]), s)) \<and>
   (\<forall>user err. BindJSON_User deps (Body c) = Inr user \<and> InsertOne_err env = Some err \<longrightarrow>
      fst (CreateUser deps env c s) =
        JSON StatusInternalServerError (H [(''error'', String err)])) \<and>
   (status (fst (CreateUser deps env c s)) \<noteq> StatusOK \<longrightarrow>
      (\<exists>err. BindJSON_User deps (Body c) = Inl err \<and>
         fst (CreateUser deps env c s) = JSON StatusBadRequest (H [(''error'', String err)])) \<or>
      (\<exists>user err. BindJSON_User deps (Body c) = Inr user \<and> InsertOne_err env = Some err \<and>
         fst (CreateUser deps env c s) =
           JSON StatusInternalServerError (H [(''error'', String err)])))"
proof (cases "BindJSON_User deps (Body c)")
  case (Inl err)
  then have "CreateUser deps env c s = (JSON StatusBadRequest (H [(''error'', String err)]), s)"
    by (simp add: CreateUser_def)
  with Inl show ?thesis by simp
next
  case (Inr user)
  show ?thesis
  proof (cases "InsertOne_err env")
    case None
    then have "status (fst (CreateUser deps env c s)) = StatusOK"
      by (simp add: CreateUser_ok [OF Inr None] JSON_def)
    with Inr None show ?thesis by simp
  next
    case (Some err)
    with Inr have "fst (CreateUser deps env c s) =
        JSON StatusInternalServerError (H [(''error'', String err)])"
      by (simp add: CreateUser_def InsertOne_def Let_def)
    with Inr Some show ?thesis by simp
  qed
qed

theorem CreateUser_error_taxonomy_witness:
  \<open>CreateUser demo_deps demo_env \<lparr>Param_id = [], Body = ''{"name":''\<rparr> demo_users =
     (\<lparr>status = 400, json = Document [(''error'', String ''unexpected EOF'')]\<rparr>, demo_users) \<and>
   fst (CreateUser demo_deps (demo_env\<lparr>InsertOne_err := Some ''connection lost''\<rparr>)
          \<lparr>Param_id = [], Body = ''{"name":"Ann"}''\<rparr> demo_users) =
     \<lparr>status = 500, json = Document [(''error'', String ''connection lost'')]\<rparr>\<close>
proof -
  have h1: \<open>BindJSON_User demo_deps (Body \<lparr>Param_id = [], Body = ''{"name":''\<rparr>) =
              Inl ''unexpected EOF''\<close>
    by (simp add: demo_deps_def)
  have h2: \<open>BindJSON_User demo_deps (Body \<lparr>Param_id = [], Body = ''{"name":"Ann"}''\<rparr>) =
              Inr \<lparr>User_Id = replicate 12 0, User_Fields = [String ''Ann'']\<rparr> \<and>
            InsertOne_err (demo_env\<lparr>InsertOne_err := Some ''connection lost''\<rparr>) =
              Some ''connection lost''\<close>
    by (simp add: demo_deps_def)
  show ?thesis
    using h1 h2
      CreateUser_error_taxonomy [of demo_deps \<open>\<lparr>Param_id = [], Body = ''{"name":''\<rparr>\<close>
        demo_env demo_users]
      CreateUser_error_taxonomy [of demo_deps \<open>\<lparr>Param_id = [], Body = ''{"name":"Ann"}''\<rparr>\<close>
        \<open>demo_env\<lparr>InsertOne_err := Some ''connection lost''\<rparr>\<close> demo_users]
    by (simp add: JSON_def H_def StatusBadRequest_def StatusInternalServerError_def)
qed

text \<open>
  Claim C8. When the body decodes and the insert succeeds, create answers 200 with the
  success message and the field \<^verbatim>\<open>insertedID\<close>, the collection has one more document, and
  \<^verbatim>\<open>insertedID\<close> is the identifier of that document.
\<close>

theorem CreateUser_success:
  assumes "BindJSON_User deps (Body c) = Inr user" and "InsertOne_err env = None"
  shows "status (fst (CreateUser deps env c s)) = 200 \<and>
         response_field (fst (CreateUser deps env c s)) ''message'' =
           Some (String ''User created successfully'') \<and>
         (\<exists>d. documents (snd (CreateUser deps env c s)) = documents s @ [d] \<and>
              doc_id d = Some (ObjectId (NewObjectID env)) \<and>
              response_field (fst (CreateUser deps env c s)) ''insertedID'' = doc_id d)"
  using assms
  by (simp add: CreateUser_def InsertOne_def Let_def JSON_def H_def StatusOK_def
        response_field_def doc_id_def marshal_User_def)

theorem CreateUser_success_witness:
  \<open>status (fst (CreateUser demo_deps demo_env \<lparr>Param_id = [], Body = ''{"name":"Ann"}''\<rparr> no_users)) = 200 \<and>
   (\<exists>d. documents (snd (CreateUser demo_deps demo_env
                          \<lparr>Param_id = [], Body = ''{"name":"Ann"}''\<rparr> no_users)) = [d] \<and>
        doc_id d = Some (ObjectId demo_id) \<and>
        response_field (fst (CreateUser demo_deps demo_env
                          \<lparr>Param_id = [], Body = ''{"name":"Ann"}''\<rparr> no_users)) ''insertedID'' =
          doc_id d)\<close>
proof -
  have h1: \<open>BindJSON_User demo_deps (Body \<lparr>Param_id = [], Body = ''{"name":"Ann"}''\<rparr>) =
              Inr \<lparr>User_Id = replicate 12 0, User_Fields = [String ''Ann'']\<rparr>\<close>
    by (simp add: demo_deps_def)
  have h2: "InsertOne_err demo_env = None"
    by (simp add: demo_env_def)
  have h3: "NewObjectID demo_env = demo_id" "documents no_users = []"
    by (simp_all add: demo_env_def no_users_def)
  show ?thesis
    using CreateUser_success [OF h1 h2, of no_users] by (simp add: h3)
qed

subsection \<open>Create, then list\<close>

text \<open>
  Claim C7. After a create that answered 200, a list that answers 200 returns an array
  holding a document whose identifier is the \<^verbatim>\<open>insertedID\<close> of the create response.
\<close>

theorem create_then_list:
  assumes "status (fst (CreateUser deps env c s)) = StatusOK"
      and "status (fst (GetUsers env' c' (snd (CreateUser deps env c s)))) = StatusOK"
  shows "\<exists>ds. json (fst (GetUsers env' c' (snd (CreateUser deps env c s)))) =
                Array (map Document ds) \<and>
              (\<exists>d \<in> set ds. doc_id d \<noteq> None \<and>
                 doc_id d = response_field (fst (CreateUser deps env c s)) ''insertedID'')"
proof -
  from CreateUser_status_ok [OF assms(1)] obtain user where
    u: "BindJSON_User deps (Body c) = Inr user" "InsertOne_err env = None" by blast
  define d where "d = marshal_User (User_schema deps) (user\<lparr>User_Id := NewObjectID env\<rparr>)"
  define s' where "s' = snd (CreateUser deps env c s)"
  have docs: "documents s' = documents s @ [d]"
    unfolding s'_def d_def by (simp add: CreateUser_ok [OF u])
  have field: "response_field (fst (CreateUser deps env c s)) ''insertedID'' =
                 Some (ObjectId (NewObjectID env))"
    by (simp add: CreateUser_ok [OF u] response_field_def JSON_def H_def)
  have id: "doc_id d = Some (ObjectId (NewObjectID env))"
    unfolding d_def by (simp add: doc_id_marshal_User)
  have "json (fst (GetUsers env' c' s')) = Array (map Document (documents s'))"
    using GetUsers_status_ok [of env' c' s'] assms(2) docs
    by (simp add: s'_def json_of_slice_def)
  moreover have "d \<in> set (documents s')" by (simp add: docs)
  ultimately show ?thesis
    unfolding s'_def [symmetric] using id field s'_def by auto
qed

theorem create_then_list_witness:
  \<open>status (fst (CreateUser demo_deps demo_env \<lparr>Param_id = [], Body = ''{"name":"Ann"}''\<rparr> no_users)) = StatusOK \<and>
   (\<exists>ds. json (fst (GetUsers demo_env \<lparr>Param_id = [], Body = []\<rparr>
                 (snd (CreateUser demo_deps demo_env \<lparr>Param_id = [], Body = ''{"name":"Ann"}''\<rparr> no_users)))) =
                Array (map Document ds) \<and>
              (\<exists>d \<in> set ds. doc_id d \<noteq> None \<and>
                 doc_id d = response_field (fst (CreateUser demo_deps demo_env \<lparr>Param_id = [], Body = ''{"name":"Ann"}''\<rparr> no_users)) ''insertedID''))\<close>
proof -
  let ?c = \<open>\<lparr>Param_id = [], Body = ''{"name":"Ann"}''\<rparr>\<close>
  have h1: "status (fst (CreateUser demo_deps demo_env ?c no_users)) = StatusOK"
    by (simp add: CreateUser_def InsertOne_def Let_def JSON_def demo_deps_def demo_env_def)
  have h2: "status (fst (GetUsers demo_env \<lparr>Param_id = [], Body = []\<rparr>
                 (snd (CreateUser demo_deps demo_env ?c no_users)))) = StatusOK"
    by (simp add: CreateUser_def InsertOne_def GetUsers_def Find_def Cursor_All_def Let_def
          JSON_def demo_deps_def demo_env_def no_users_def marshal_User_def)
  show ?thesis using h1 create_then_list [OF h1 h2] by simp
qed

subsection \<open>List on the empty collection\<close>

text \<open>
  Claim C5 has list on the empty collection answer 200 with an empty JSON array. The
  handler answers 200 with \<^verbatim>\<open>null\<close>: \<^verbatim>\<open>users\<close> is declared as a \<^verbatim>\<open>nil\<close> slice, \<^verbatim>\<open>cursor.All\<close> has no
  document to put into it, and \<^verbatim>\<open>c.JSON\<close> writes a \<^verbatim>\<open>nil\<close> slice as \<^verbatim>\<open>null\<close>.
\<close>

theorem GetUsers_empty_collection:
  "GetUsers demo_env \<lparr>Param_id = [], Body = []\<rparr> no_users =
     (\<lparr>status = 200, json = Null\<rparr>, \<lparr>documents = [], calls = [Call_Find]\<rparr>)"
  by (simp add: GetUsers_def Find_def Cursor_All_def json_of_slice_def JSON_def StatusOK_def
        demo_env_def no_users_def)

subsection \<open>The identifier a create stores\<close>

text \<open>
  Claim C1, as the code has it. When the body decodes and the insert succeeds, the new
  document carries the identifier that \<^verbatim>\<open>NewObjectID\<close> returned, and it equals the identifier
  the body decoded to exactly when the generator returned that same value. The
  identifier of the body never reaches the store: whatever identifier the decoder puts
  into the user, the response and the collection are the same.
\<close>

theorem CreateUser_stored_identifier:
  assumes "BindJSON_User deps (Body c) = Inr user" and "InsertOne_err env = None"
  shows "(\<exists>d. documents (snd (CreateUser deps env c s)) = documents s @ [d] \<and>
              doc_id d = Some (ObjectId (NewObjectID env)) \<and>
              (doc_id d = Some (ObjectId (User_Id user)) \<longleftrightarrow> NewObjectID env = User_Id user)) \<and>
         (\<forall>x. CreateUser
                 (deps\<lparr>BindJSON_User :=
                    \<lambda>body. map_sum id (\<lambda>u. u\<lparr>User_Id := x\<rparr>) (BindJSON_User deps body)\<rparr>)
                 env c s =
               CreateUser deps env c s)"
proof -
  have "\<And>x. CreateUser
                 (deps\<lparr>BindJSON_User :=
                    \<lambda>body. map_sum id (\<lambda>u. u\<lparr>User_Id := x\<rparr>) (BindJSON_User deps body)\<rparr>)
                 env c s =
               CreateUser deps env c s"
    by (simp add: CreateUser_def InsertOne_def Let_def assms)
  moreover have "documents (snd (CreateUser deps env c s)) =
      documents s @ [marshal_User (User_schema deps) (user\<lparr>User_Id := NewObjectID env\<rparr>)]"
    by (simp add: CreateUser_ok [OF assms])
  ultimately show ?thesis
    by (simp add: doc_id_marshal_User)
qed

theorem CreateUser_stored_identifier_witness:
  \<open>(\<exists>d. documents (snd (CreateUser demo_deps demo_env
            \<lparr>Param_id = [], Body = ''{"name":"Ann"}''\<rparr> no_users)) = documents no_users @ [d] \<and>
        doc_id d = Some (ObjectId demo_id))\<close>
proof -
  have h1: \<open>BindJSON_User demo_deps (Body \<lparr>Param_id = [], Body = ''{"name":"Ann"}''\<rparr>) =
              Inr \<lparr>User_Id = replicate 12 0, User_Fields = [String ''Ann'']\<rparr>\<close>
    by (simp add: demo_deps_def)
  have h2: "InsertOne_err demo_env = None"
    by (simp add: demo_env_def)
  have h3: "NewObjectID demo_env = demo_id"
    by (simp add: demo_env_def)
  show ?thesis
    using CreateUser_stored_identifier [OF h1 h2, of no_users] unfolding h3 by blast
qed

text \<open>
  The handler does not compare the generated identifier with the one of the body: when
  the generator returns the value the body carries, that value is stored.
\<close>

theorem CreateUser_client_id_counterexample:
  \<open>BindJSON_User demo_deps
      (Body \<lparr>Param_id = [], Body = ''{"_id":"654f1a2b3c4d5e6f708192a3","name":"Ann"}''\<rparr>) =
     Inr \<lparr>User_Id = demo_id, User_Fields = [String ''Ann'']\<rparr> \<and>
   map doc_id (documents (snd (CreateUser demo_deps demo_env
      \<lparr>Param_id = [], Body = ''{"_id":"654f1a2b3c4d5e6f708192a3","name":"Ann"}''\<rparr> no_users))) =
     [Some (ObjectId demo_id)]\<close>
  by (simp add: CreateUser_def InsertOne_def Let_def demo_deps_def demo_env_def no_users_def
        marshal_User_def doc_id_def)

subsection \<open>Update\<close>

lemma UpdateUser_ok:
  assumes "ObjectIDFromHex (Param_id c) = Some objId"
      and "BindJSON_map deps (Body c) = Inr updatedData"
      and "UpdateOne_err env = None"
      and "\<exists>d \<in> set (documents s). matches objId d"
      and "\<not> modifies_id updatedData objId"
  shows "UpdateUser deps env c s =
    (JSON StatusOK (H [(''message'', String ''User updated successfully'')]),
     s\<lparr>calls := calls s @ [Call_UpdateOne objId updatedData],
       documents := update_first objId updatedData (documents s)\<rparr>)"
  using assms by (simp add: UpdateUser_def UpdateOne_def Let_def MatchedCount_def)

lemma UpdateUser_documents:
  "documents (snd (UpdateUser deps env c s)) = documents s \<or>
   (\<exists>objId updatedData. ObjectIDFromHex (Param_id c) = Some objId \<and>
      BindJSON_map deps (Body c) = Inr updatedData \<and> UpdateOne_err env = None \<and>
      (\<exists>d \<in> set (documents s). matches objId d) \<and> \<not> modifies_id updatedData objId \<and>
      status (fst (UpdateUser deps env c s)) = StatusOK \<and>
      documents (snd (UpdateUser deps env c s)) = update_first objId updatedData (documents s))"
  by (auto simp: UpdateUser_def UpdateOne_def Let_def MatchedCount_def JSON_def
           split: option.splits sum.splits)

lemma UpdateUser_status_ok:
  assumes "status (fst (UpdateUser deps env c s)) = StatusOK"
  shows "\<exists>objId updatedData. ObjectIDFromHex (Param_id c) = Some objId \<and>
      BindJSON_map deps (Body c) = Inr updatedData \<and> UpdateOne_err env = None \<and>
      (\<exists>d \<in> set (documents s). matches objId d) \<and> \<not> modifies_id updatedData objId"
  using assms
  by (auto simp: UpdateUser_def UpdateOne_def Let_def MatchedCount_def JSON_def
        StatusOK_def StatusBadRequest_def StatusInternalServerError_def StatusNotFound_def
           split: option.splits sum.splits if_splits)


lemma demo_bind_map:
  \<open>BindJSON_map demo_deps ''{"name":"X"}'' = Inr [(''name'', String ''X'')]\<close>
  \<open>BindJSON_map demo_deps ''{"role":"admin"}'' = Inr [(''role'', String ''admin'')]\<close>
  \<open>BindJSON_map demo_deps ''{"_id":"x","name":"X"}'' =
     Inr [(''_id'', String ''x''), (''name'', String ''X'')]\<close>
  \<open>BindJSON_map demo_deps ''{'' = Inl ''unexpected EOF''\<close>
  by (simp_all add: demo_deps_def)






text \<open>
  Claim C4, as the code has it. For an update request whose identifier parses and matches
  no document, the documents of the collection are unchanged, whatever the answer; and
  when the body decodes and the store call does not fail, the answer is 404 with the
  fixed message \<^verbatim>\<open>User not found\<close>.
\<close>

theorem UpdateUser_not_found:
  assumes "ObjectIDFromHex (Param_id c) = Some objId"
      and "\<not> (\<exists>d \<in> set (documents s). matches objId d)"
  shows "documents (snd (UpdateUser deps env c s)) = documents s \<and>
         (\<forall>updatedData.
            BindJSON_map deps (Body c) = Inr updatedData \<and> UpdateOne_err env = None \<longrightarrow>
            fst (UpdateUser deps env c s) =
              JSON StatusNotFound (H [(''message'', String ''User not found'')]) \<and>
            status (fst (UpdateUser deps env c s)) = 404)"
  using assms
  by (auto simp: UpdateUser_def UpdateOne_def Let_def MatchedCount_def JSON_def
        StatusNotFound_def split: sum.splits option.splits)

theorem UpdateUser_not_found_witness:
  \<open>UpdateUser demo_deps demo_env
     \<lparr>Param_id = ''654f1a2b3c4d5e6f708192a3'', Body = ''{"name":"X"}''\<rparr> no_users =
     (\<lparr>status = 404, json = Document [(''message'', String ''User not found'')]\<rparr>,
      \<lparr>documents = [], calls = [Call_UpdateOne demo_id [(''name'', String ''X'')]]\<rparr>)\<close>
proof -
  let ?c = \<open>\<lparr>Param_id = ''654f1a2b3c4d5e6f708192a3'', Body = ''{"name":"X"}''\<rparr>\<close>
  have h1: "ObjectIDFromHex (Param_id ?c) = Some demo_id"
    by (simp add: demo_hex)
  have h2: "\<not> (\<exists>d \<in> set (documents no_users). matches demo_id d)"
    by (simp add: no_users_def)
  have h3: "BindJSON_map demo_deps (Body ?c) = Inr [(''name'', String ''X'')] \<and>
            UpdateOne_err demo_env = None"
    by (simp add: demo_bind_map demo_env_def)
  have st: "snd (UpdateUser demo_deps demo_env ?c no_users) =
      \<lparr>documents = [], calls = [Call_UpdateOne demo_id [(''name'', String ''X'')]]\<rparr>"
    by (simp add: UpdateUser_def UpdateOne_def Let_def MatchedCount_def
          demo_hex demo_bind_map demo_env_def no_users_def)
  have "fst (UpdateUser demo_deps demo_env ?c no_users) =
          JSON StatusNotFound (H [(''message'', String ''User not found'')])"
    using UpdateUser_not_found [OF h1 h2, of demo_deps demo_env] h3 by blast
  then show ?thesis
    using st by (simp add: prod_eq_iff JSON_def H_def StatusNotFound_def)
qed


text \<open>
  The body is decoded before the store is asked: with an identifier that matches nothing
  and a body that does not decode, the answer is 400; with a store call that fails it
  is 500.
\<close>

theorem UpdateUser_not_found_counterexample:
  \<open>ObjectIDFromHex ''654f1a2b3c4d5e6f708192a3'' = Some demo_id \<and>
   documents no_users = [] \<and>
   status (fst (UpdateUser demo_deps demo_env
     \<lparr>Param_id = ''654f1a2b3c4d5e6f708192a3'', Body = ''{''\<rparr> no_users)) = 400 \<and>
   status (fst (UpdateUser demo_deps (demo_env\<lparr>UpdateOne_err := Some ''connection lost''\<rparr>)
     \<lparr>Param_id = ''654f1a2b3c4d5e6f708192a3'', Body = ''{"name":"X"}''\<rparr> no_users)) = 500\<close>
  by (simp add: demo_hex demo_bind_map UpdateUser_def UpdateOne_def Let_def
        JSON_def StatusInternalServerError_def StatusBadRequest_def no_users_def)

subsection \<open>The identifier of a document never changes\<close>

lemma CreateUser_documents:
  "documents (snd (CreateUser deps env c s)) = documents s \<or>
   (\<exists>user. BindJSON_User deps (Body c) = Inr user \<and>
      documents (snd (CreateUser deps env c s)) =
        documents s @ [marshal_User (User_schema deps) (user\<lparr>User_Id := NewObjectID env\<rparr>)])"
  by (auto simp: CreateUser_def InsertOne_def Let_def split: sum.splits option.splits)

lemma GetUsers_documents: "documents (snd (GetUsers env c s)) = documents s"
  by (simp add: GetUsers_def Find_def split: sum.splits option.splits)

lemma BasicRoute_ids:
  "\<exists>added. map doc_id (documents (snd (BasicRoute deps r env c s))) =
             map doc_id (documents s) @ added"
proof (cases r)
  case GET_users
  then show ?thesis by (simp add: BasicRoute_def GetUsers_documents)
next
  case POST_users
  then show ?thesis
    using CreateUser_documents [of deps env c s] by (auto simp: BasicRoute_def)
next
  case PATCH_users_id
  then show ?thesis
    using UpdateUser_documents [of deps env c s]
    by (auto simp: BasicRoute_def update_first_ids)
qed

lemma serve_ids:
  "\<exists>added. map doc_id (documents (serve deps reqs s)) = map doc_id (documents s) @ added"
proof (induction reqs arbitrary: s)
  case Nil
  show ?case by simp
next
  case (Cons req reqs)
  obtain r env c where req: "req = (r, env, c)" by (cases req)
  define s1 where "s1 = snd (BasicRoute deps r env c s)"
  from BasicRoute_ids [of deps r env c s] obtain a1 where
    a1: "map doc_id (documents s1) = map doc_id (documents s) @ a1"
    unfolding s1_def by blast
  from Cons.IH [of s1] obtain a2 where
    a2: "map doc_id (documents (serve deps reqs s1)) = map doc_id (documents s1) @ a2"
    by blast
  have "map doc_id (documents (serve deps (req # reqs) s)) =
          map doc_id (documents s) @ (a1 @ a2)"
    by (simp add: req s1_def [symmetric] a1 a2)
  then show ?case by blast
qed

text \<open>
  Claim C9. Whatever sequence of list, create and update requests is served, under
  whatever environment, each document of the collection is still there at its place
  with the identifier it had; an update whose body carries an \<^verbatim>\<open>_id\<close> is among the requests.
\<close>

theorem identifier_immutable:
  assumes "i < length (documents s)"
  shows "i < length (documents (serve deps reqs s)) \<and>
         doc_id (documents (serve deps reqs s) ! i) = doc_id (documents s ! i)"
proof -
  from serve_ids [of deps reqs s] obtain added where
    a: "map doc_id (documents (serve deps reqs s)) = map doc_id (documents s) @ added"
    by blast
  from a have "length (documents (serve deps reqs s)) = length (documents s) + length added"
    by (metis length_append length_map)
  with assms have len: "i < length (documents (serve deps reqs s))" by simp
  then have "doc_id (documents (serve deps reqs s) ! i) =
               map doc_id (documents (serve deps reqs s)) ! i"
    by simp
  also have "\<dots> = map doc_id (documents s) ! i"
    using assms by (simp add: a nth_append)
  also have "\<dots> = doc_id (documents s ! i)"
    using assms by simp
  finally show ?thesis using len by simp
qed

theorem identifier_immutable_witness:
  \<open>map doc_id (documents (serve demo_deps
      [(PATCH_users_id, demo_env,
          \<lparr>Param_id = ''654f1a2b3c4d5e6f708192a3'', Body = ''{"_id":"x","name":"X"}''\<rparr>),
       (PATCH_users_id, demo_env,
          \<lparr>Param_id = ''654f1a2b3c4d5e6f708192a3'', Body = ''{"name":"X"}''\<rparr>),
       (POST_users, demo_env\<lparr>NewObjectID := replicate 12 1\<rparr>,
          \<lparr>Param_id = [], Body = ''{"name":"Ann"}''\<rparr>),
       (GET_users, demo_env, \<lparr>Param_id = [], Body = []\<rparr>)]
      demo_users)) =
    [Some (ObjectId demo_id), Some (ObjectId (replicate 12 1))] \<and>
   0 < length (documents demo_users) \<and>
   doc_id (documents (serve demo_deps
      [(PATCH_users_id, demo_env,
          \<lparr>Param_id = ''654f1a2b3c4d5e6f708192a3'', Body = ''{"_id":"x","name":"X"}''\<rparr>),
       (PATCH_users_id, demo_env,
          \<lparr>Param_id = ''654f1a2b3c4d5e6f708192a3'', Body = ''{"name":"X"}''\<rparr>),
       (POST_users, demo_env\<lparr>NewObjectID := replicate 12 1\<rparr>,
          \<lparr>Param_id = [], Body = ''{"name":"Ann"}''\<rparr>),
       (GET_users, demo_env, \<lparr>Param_id = [], Body = []\<rparr>)]
      demo_users) ! 0) = Some (ObjectId demo_id)\<close>
proof -
  let ?reqs = \<open>[(PATCH_users_id, demo_env,
          \<lparr>Param_id = ''654f1a2b3c4d5e6f708192a3'', Body = ''{"_id":"x","name":"X"}''\<rparr>),
       (PATCH_users_id, demo_env,
          \<lparr>Param_id = ''654f1a2b3c4d5e6f708192a3'', Body = ''{"name":"X"}''\<rparr>),
       (POST_users, demo_env\<lparr>NewObjectID := replicate 12 1\<rparr>,
          \<lparr>Param_id = [], Body = ''{"name":"Ann"}''\<rparr>),
       (GET_users, demo_env, \<lparr>Param_id = [], Body = []\<rparr>)]\<close>
  have h: "0 < length (documents demo_users)"
    by (simp add: demo_users_def)
  have run: "map doc_id (documents (serve demo_deps ?reqs demo_users)) =
      [Some (ObjectId demo_id), Some (ObjectId (replicate 12 1))]"
    by (simp add: BasicRoute_def UpdateUser_def UpdateOne_def CreateUser_def InsertOne_def
          GetUsers_def Find_def Cursor_All_def Let_def MatchedCount_def modifies_id_def
          demo_hex demo_bind_map demo_env_def demo_deps_def marshal_User_def
          demo_users_def matches_def doc_id_def)
  have "doc_id (documents demo_users ! 0) = Some (ObjectId demo_id)"
    by (simp add: demo_users_def doc_id_def)
  with identifier_immutable [OF h, of demo_deps ?reqs] run h show ?thesis by simp
qed

subsection \<open>The fields a create stores\<close>

lemma keys_marshal_User:
  "fst ` set (marshal_User schema u) \<subseteq> insert ''_id'' (set schema)"
proof -
  have "fst ` set (zip schema (User_Fields u)) \<subseteq> set schema"
    by (auto dest: set_zip_leftD)
  then show ?thesis by (auto simp: marshal_User_def)
qed

text \<open>
  Claim C10. A document that create adds to the collection has no field other than
  \<^verbatim>\<open>_id\<close> and the fields of the schema of \<^verbatim>\<open>models.User\<close>, whatever the body held: the decoder
  gives a \<^verbatim>\<open>User\<close>, which has no place for another field. Update differs: after an update
  that answered 200, a document of the collection has every field name of the body.
\<close>

theorem CreateUser_schema_fields:
  "(\<forall>d \<in> set (documents (snd (CreateUser deps env c s))).
      d \<in> set (documents s) \<or> fst ` set d \<subseteq> insert ''_id'' (set (User_schema deps))) \<and>
   (\<forall>updatedData.
      BindJSON_map deps (Body c') = Inr updatedData \<and>
      status (fst (UpdateUser deps env' c' s)) = StatusOK \<longrightarrow>
      (\<exists>d \<in> set (documents (snd (UpdateUser deps env' c' s))).
         fst ` set updatedData \<subseteq> fst ` set d))"
proof (intro conjI ballI allI impI)
  fix d
  assume d: "d \<in> set (documents (snd (CreateUser deps env c s)))"
  from CreateUser_documents [of deps env c s]
  show "d \<in> set (documents s) \<or> fst ` set d \<subseteq> insert ''_id'' (set (User_schema deps))"
  proof
    assume "documents (snd (CreateUser deps env c s)) = documents s"
    with d show ?thesis by simp
  next
    assume "\<exists>user. BindJSON_User deps (Body c) = Inr user \<and>
      documents (snd (CreateUser deps env c s)) =
        documents s @ [marshal_User (User_schema deps) (user\<lparr>User_Id := NewObjectID env\<rparr>)]"
    then obtain user where "documents (snd (CreateUser deps env c s)) =
        documents s @ [marshal_User (User_schema deps) (user\<lparr>User_Id := NewObjectID env\<rparr>)]"
      by blast
    with d have "d \<in> set (documents s) \<or>
        d = marshal_User (User_schema deps) (user\<lparr>User_Id := NewObjectID env\<rparr>)"
      by auto
    then show ?thesis using keys_marshal_User by blast
  qed
next
  fix updatedData
  assume a: "BindJSON_map deps (Body c') = Inr updatedData \<and>
      status (fst (UpdateUser deps env' c' s)) = StatusOK"
  from UpdateUser_status_ok [of deps env' c' s] a obtain objId where
    o: "ObjectIDFromHex (Param_id c') = Some objId" "UpdateOne_err env' = None"
       "\<exists>d \<in> set (documents s). matches objId d" "\<not> modifies_id updatedData objId"
    by auto
  from a have bind: "BindJSON_map deps (Body c') = Inr updatedData" by simp
  from update_first_nth [OF o(3), of updatedData] obtain i where
    i: "i < length (documents s)"
       "update_first objId updatedData (documents s) =
          (documents s)[i := set_fields updatedData (documents s ! i)]"
    by blast
  have "documents (snd (UpdateUser deps env' c' s)) =
          (documents s)[i := set_fields updatedData (documents s ! i)]"
    by (simp add: UpdateUser_ok [OF o(1) bind o(2) o(3) o(4)] i(2))
  then have "set_fields updatedData (documents s ! i) \<in>
               set (documents (snd (UpdateUser deps env' c' s)))"
    using i(1) by (simp add: set_update_memI)
  moreover have "fst ` set updatedData \<subseteq> fst ` set (set_fields updatedData (documents s ! i))"
    by (simp add: keys_set_fields)
  ultimately show "\<exists>d \<in> set (documents (snd (UpdateUser deps env' c' s))).
         fst ` set updatedData \<subseteq> fst ` set d"
    by blast
qed

theorem CreateUser_schema_fields_witness:
  \<open>documents (snd (CreateUser demo_deps demo_env
      \<lparr>Param_id = [], Body = ''{"name":"Ann","role":"admin"}''\<rparr> no_users)) =
     [[(''_id'', ObjectId demo_id), (''name'', String ''Ann'')]] \<and>
   fst ` set [(''_id'', ObjectId demo_id), (''name'', String ''Ann'')] \<subseteq>
     insert ''_id'' (set (User_schema demo_deps)) \<and>
   documents (snd (UpdateUser demo_deps demo_env
      \<lparr>Param_id = ''654f1a2b3c4d5e6f708192a3'', Body = ''{"role":"admin"}''\<rparr> demo_users)) =
     [[(''_id'', ObjectId demo_id), (''name'', String ''Ann''),
       (''email'', String ''ann@example.org''), (''role'', String ''admin'')]]\<close>
proof -
  let ?c = \<open>\<lparr>Param_id = [], Body = ''{"name":"Ann","role":"admin"}''\<rparr>\<close>
  let ?c' = \<open>\<lparr>Param_id = ''654f1a2b3c4d5e6f708192a3'', Body = ''{"role":"admin"}''\<rparr>\<close>
  have create: "documents (snd (CreateUser demo_deps demo_env ?c no_users)) =
     [[(''_id'', ObjectId demo_id), (''name'', String ''Ann'')]]"
    by (simp add: CreateUser_def InsertOne_def Let_def demo_deps_def demo_env_def
          no_users_def marshal_User_def)
  have update: "documents (snd (UpdateUser demo_deps demo_env ?c' demo_users)) =
     [[(''_id'', ObjectId demo_id), (''name'', String ''Ann''),
       (''email'', String ''ann@example.org''), (''role'', String ''admin'')]]"
    by (simp add: UpdateUser_def UpdateOne_def Let_def MatchedCount_def modifies_id_def
          demo_hex demo_bind_map demo_env_def)
       (simp add: demo_users_def matches_def doc_id_def)
  have "[(''_id'', ObjectId demo_id), (''name'', String ''Ann'')] \<in> set (documents no_users) \<or>
        fst ` set [(''_id'', ObjectId demo_id), (''name'', String ''Ann'')] \<subseteq>
          insert ''_id'' (set (User_schema demo_deps))"
    using CreateUser_schema_fields [of demo_deps demo_env ?c no_users ?c' demo_env] create
    by simp
  then show ?thesis
    using create update by (simp add: no_users_def)
qed

end
